theory Spec2Isabelle
  imports Main
begin

section \<open>JavaScript values used by the fault manager and the webhook handler\<close>

text \<open>
  Strings are \<open>string\<close> (lists of characters). Timestamps are the milliseconds that
  \<open>Date.getTime()\<close> returns, as \<open>int\<close>. A thrown value is an \<open>exn\<close>: an \<open>Error\<close>
  object with its message, a \<open>RangeError\<close> or a \<open>TypeError\<close> of the platform with its
  message, or any other thrown value, given by its string rendering.
\<close>

datatype exn = Error string | RangeError string | TypeError string | Thrown string

text \<open>The template-literal rendering \<open>`${e}`\<close> of a thrown value
  (\<open>Error.prototype.toString\<close>: the name alone when the message is empty).\<close>

fun String_exn :: "exn \<Rightarrow> string" where
  "String_exn (Error msg) = (if msg = [] then ''Error'' else ''Error: '' @ msg)"
| "String_exn (RangeError msg) = (if msg = [] then ''RangeError'' else ''RangeError: '' @ msg)"
| "String_exn (TypeError msg) = (if msg = [] then ''TypeError'' else ''TypeError: '' @ msg)"
| "String_exn (Thrown s) = s"

text \<open>\<open>x || d\<close> on an optional string: \<open>undefined\<close> and the empty string are falsy.\<close>

definition or_string :: "string option \<Rightarrow> string \<Rightarrow> string" where
  "or_string x d = (case x of None \<Rightarrow> d | Some s \<Rightarrow> if s = [] then d else s)"

text \<open>Truthiness of an optional string, as in \<open>if (report.url)\<close>.\<close>

definition truthy :: "string option \<Rightarrow> bool" where
  "truthy x = (case x of None \<Rightarrow> False | Some s \<Rightarrow> s \<noteq> [])"

text \<open>\<open>s.split(d)\<close> for a one-character separator: never the empty list.\<close>

fun split :: "char \<Rightarrow> string \<Rightarrow> string list" where
  "split d [] = [ [] ]"
| "split d (c # cs) =
     (if c = d then [] # split d cs
      else (case split d cs of [] \<Rightarrow> [ [c] ] | p # ps \<Rightarrow> (c # p) # ps))"

text \<open>\<open>xs[0]\<close>: \<open>undefined\<close> on the empty array.\<close>

definition first :: "'a list \<Rightarrow> 'a option" where
  "first xs = (case xs of [] \<Rightarrow> None | x # _ \<Rightarrow> Some x)"

text \<open>\<open>sections.join(sep)\<close>.\<close>

fun join :: "string \<Rightarrow> string list \<Rightarrow> string" where
  "join sep [] = []"
| "join sep [s] = s"
| "join sep (s # t # ss) = s @ sep @ join sep (t # ss)"

text \<open>The decimal rendering \<open>`${n}`\<close> of a non-negative integer.\<close>

fun show_nat :: "nat \<Rightarrow> string" where
  "show_nat n =
     (if n < 10 then [char_of (48 + n)]
      else show_nat (n div 10) @ [char_of (48 + n mod 10)])"

declare show_nat.simps [simp del]

definition newline :: char where
  "newline = CHR 0x0A"

section \<open>The fault manager: data\<close>

text \<open>
  The functions of the platform that the manager calls and that are not code of this
  repository are parameters of the model: the MD5 hex digest of Node's \<open>crypto\<close>,
  \<open>Date.prototype.toISOString\<close>, \<open>String.prototype.toUpperCase\<close> and
  \<open>JSON.stringify(x, null, 2)\<close> on a context object.

  A context or metadata object is a \<open>Record<string, unknown>\<close>: its keys in order, each
  with a value. The values told apart here are texts, numbers and BigInts; the last are
  values that \<open>JSON.stringify\<close> refuses with a \<open>TypeError\<close>, as it refuses an object
  that contains itself. \<open>JSON_stringify\<close> returns \<open>Inl e\<close> when it throws \<open>e\<close>.
\<close>

datatype js_value = Text string | Number int | BigInt int

type_synonym json_object = "(string \<times> js_value) list"

record platform =
  md5_hex :: "string \<Rightarrow> string"
  toISOString :: "int \<Rightarrow> string"
  toUpperCase :: "string \<Rightarrow> string"
  JSON_stringify :: "json_object \<Rightarrow> exn + string"

text \<open>\<open>FaultConfig\<close> as the caller passes it to the constructor: optional fields are
  options.\<close>

record FaultConfigInput =
  in_accessToken :: string
  in_teamId :: string
  in_labelIds :: "string list option"
  in_defaultPriority :: "nat option"
  in_appName :: "string option"
  in_environment :: "string option"
  in_deduplicate :: "bool option"
  in_dedupeWindow :: "int option"

text \<open>\<open>this.config\<close> as the constructor stores it: every default is applied, which is
  what the non-null assertions of \<open>getPriority\<close> and \<open>checkDuplicate\<close> rely on.\<close>

record FaultConfig =
  accessToken :: string
  teamId :: string
  labelIds :: "string list option"
  defaultPriority :: nat
  appName :: string
  environment :: string
  deduplicate :: bool
  dedupeWindow :: int

record FaultReport =
  message :: string
  stack :: "string option"
  report_context :: "json_object option"
  severity :: "string option"
  userId :: "string option"
  url :: "string option"
  metadata :: "json_object option"

record FaultRecord =
  hash :: string
  rec_issueId :: string
  count :: nat
  lastSeen :: int

record FaultManager =
  config :: FaultConfig
  faultCache :: "string \<rightharpoonup> FaultRecord"

text \<open>The tracker gateway (\<open>@linear/sdk\<close>): the requests the manager sends and the
  issue a successful creation returns.\<close>

record IssueCreateInput =
  title :: string
  description :: string
  ici_teamId :: string
  priority :: nat
  ici_labelIds :: "string list option"

record CommentCreateInput =
  cci_issueId :: string
  body :: string

datatype gateway_call = CreateIssue IssueCreateInput | CreateComment CommentCreateInput

record Issue =
  issue_id :: string
  issue_identifier :: string
  issue_url :: string

text \<open>
  What one call of \<open>report\<close> reads from the outside: the clock at each \<open>new Date()\<close>,
  and how the gateway answers. The clock is read in \<open>checkDuplicate\<close> (\<open>now_check\<close>), for
  the \<open>lastSeen\<close> of a duplicate (\<open>now_touch\<close>), in the comment body (\<open>now_comment\<close>), in
  \<open>formatDescription\<close> (\<open>now_format\<close>) and for the \<open>lastSeen\<close> of a new record
  (\<open>now_insert\<close>); no relation between the readings is assumed.
  \<open>createComment_reply\<close> is \<open>None\<close> when the promise
  resolves and \<open>Some e\<close> when it rejects with \<open>e\<close>; \<open>createIssue_reply\<close> is \<open>Inl e\<close>
  when \<open>createIssue\<close> or the \<open>issue\<close> promise of its payload rejects, \<open>Inr None\<close>
  when the payload holds no issue, and \<open>Inr (Some i)\<close> when it holds the issue \<open>i\<close>.
\<close>

record env =
  now_check :: int
  now_touch :: int
  now_comment :: int
  now_format :: int
  now_insert :: int
  createComment_reply :: "exn option"
  createIssue_reply :: "exn + Issue option"

datatype level = Debug | Info | Warn | Err

record FaultResult =
  issueId :: string
  res_identifier :: string
  res_url :: string
  isDuplicate :: bool

text \<open>What a call of \<open>report\<close> leaves behind: the value the promise settles with
  (\<open>Inl\<close> a rejection), the manager, the gateway calls made and the log lines written.\<close>

record outcome =
  result :: "exn + FaultResult"
  manager :: FaultManager
  calls :: "gateway_call list"
  logs :: "(level \<times> string) list"

section \<open>The fault manager: operations\<close>

text \<open>The constructor: \<open>||\<close> replaces \<open>undefined\<close>, \<open>0\<close> and the empty string by the
  default, \<open>??\<close> replaces \<open>undefined\<close> only. The cache starts empty.\<close>

definition constructor :: "FaultConfigInput \<Rightarrow> FaultManager" where
  "constructor c =
     \<lparr> config =
         \<lparr> accessToken = in_accessToken c,
           teamId = in_teamId c,
           labelIds = in_labelIds c,
           defaultPriority =
             (case in_defaultPriority c of None \<Rightarrow> 2 | Some p \<Rightarrow> if p = 0 then 2 else p),
           appName = or_string (in_appName c) ''Application'',
           environment = or_string (in_environment c) ''production'',
           deduplicate = (case in_deduplicate c of None \<Rightarrow> True | Some b \<Rightarrow> b),
           dedupeWindow =
             (case in_dedupeWindow c of None \<Rightarrow> 3600000 | Some w \<Rightarrow> if w = 0 then 3600000 else w) \<rparr>,
       faultCache = Map.empty \<rparr>"

text \<open>The fingerprint: the digest of
  \<open>`${report.message}:${report.stack?.split('\n')[0] || ''}`\<close>.\<close>

definition generateFaultHash :: "platform \<Rightarrow> FaultReport \<Rightarrow> string" where
  "generateFaultHash P report =
     (let content =
        message report @ '':'' @
        or_string (case stack report of None \<Rightarrow> None | Some s \<Rightarrow> first (split newline s)) ''''
      in md5_hex P content)"

text \<open>\<open>checkDuplicate\<close> reads the clock only when a record is stored; \<open>now\<close> is that
  reading. It returns the record found and the manager, whose cache it may have changed.\<close>

definition checkDuplicate :: "int \<Rightarrow> string \<Rightarrow> FaultManager \<Rightarrow> FaultRecord option \<times> FaultManager" where
  "checkDuplicate now h m =
     (case faultCache m h of
        None \<Rightarrow> (None, m)
      | Some record \<Rightarrow>
          (let elapsed = now - lastSeen record in
           if elapsed > dedupeWindow (config m)
           then (None, m\<lparr>faultCache := (faultCache m)(h := None)\<rparr>)
           else (Some record, m)))"

definition nonempty_object :: "json_object option \<Rightarrow> bool" where
  "nonempty_object x = (case x of None \<Rightarrow> False | Some kvs \<Rightarrow> length kvs > 0)"

text \<open>
  \<open>formatDescription\<close> builds the sections in order; the two calls of \<open>JSON.stringify\<close>
  are the only steps that can throw, the one on the context first. \<open>Inl e\<close> is the
  thrown value.
\<close>

definition formatDescription :: "platform \<Rightarrow> int \<Rightarrow> FaultManager \<Rightarrow> FaultReport \<Rightarrow> exn + string" where
  "formatDescription P now m report =
     (let sections =
        [''## Error Details'',
         ''**Message:** '' @ message report,
         ''**Severity:** '' @ or_string (severity report) ''error'',
         ''**Environment:** '' @ environment (config m),
         ''**Timestamp:** '' @ toISOString P now]
        @ (if truthy (url report) then [''**URL:** '' @ the (url report)] else [])
        @ (if truthy (userId report) then [''**User ID:** '' @ the (userId report)] else [])
        @ (if truthy (stack report)
           then [newline # ''## Stack Trace'', ''```'', the (stack report), ''```''] else [])
      in case (if nonempty_object (report_context report)
               then JSON_stringify P (the (report_context report)) else Inr [])
         of Inl e \<Rightarrow> Inl e
          | Inr context_json \<Rightarrow>
              (let sections =
                 sections
                 @ (if nonempty_object (report_context report)
                    then [newline # ''## Context'', ''```json'', context_json, ''```'']
                    else [])
               in case (if nonempty_object (metadata report)
                        then JSON_stringify P (the (metadata report)) else Inr [])
                  of Inl e \<Rightarrow> Inl e
                   | Inr metadata_json \<Rightarrow>
                       Inr (join [newline]
                              (sections
                               @ (if nonempty_object (metadata report)
                                  then [newline # ''## Metadata'', ''```json'', metadata_json,
                                        ''```'']
                                  else [])))))"

text \<open>\<open>getPriority\<close> takes any string, or \<open>undefined\<close>; the \<open>switch\<close> compares with
  \<open>===\<close>.\<close>

definition getPriority :: "FaultManager \<Rightarrow> string option \<Rightarrow> nat" where
  "getPriority m sev =
     (if sev = Some ''critical'' then 1
      else if sev = Some ''error'' then 2
      else if sev = Some ''warning'' then 3
      else defaultPriority (config m))"

text \<open>
  \<open>report\<close>, run from its first statement to the settlement of its promise with no other
  call of the manager in between. The record that \<open>checkDuplicate\<close> returns is the object
  in the map, so the increment of its count and the new \<open>lastSeen\<close> are updates of the
  cache. The title and the description are built before the \<open>try\<close> block: when
  \<open>formatDescription\<close> throws, the promise rejects with what was thrown, no gateway call
  is made and nothing is logged or stored.
\<close>

definition report :: "platform \<Rightarrow> env \<Rightarrow> FaultReport \<Rightarrow> FaultManager \<Rightarrow> outcome" where
  "report P E r m =
     (let h = generateFaultHash P r;
          (existing, m1) =
            (if deduplicate (config m) then checkDuplicate (now_check E) h m else (None, m))
      in case existing of
           Some ex \<Rightarrow>
             (let ex' = ex\<lparr>count := count ex + 1, lastSeen := now_touch E\<rparr>;
                  m2 = m1\<lparr>faultCache := (faultCache m1)(h \<mapsto> ex')\<rparr>;
                  log1 = [(Info, ''Duplicate fault detected, count: '' @ show_nat (count ex'))];
                  comment =
                    \<lparr> cci_issueId = rec_issueId ex',
                      body = ''This error occurred again at '' @ toISOString P (now_comment E)
                             @ ''. Total occurrences: '' @ show_nat (count ex') \<rparr>;
                  log2 =
                    (case createComment_reply E of
                       None \<Rightarrow> []
                     | Some e \<Rightarrow>
                         [(Warn, ''Failed to add comment to existing issue: '' @ String_exn e)])
              in \<lparr> result =
                     Inr \<lparr> issueId = rec_issueId ex',
                           res_identifier = ''duplicate'',
                           res_url = ''https://linear.app/issue/'' @ rec_issueId ex',
                           isDuplicate = True \<rparr>,
                   manager = m2,
                   calls = [CreateComment comment],
                   logs = log1 @ log2 \<rparr>)
         | None \<Rightarrow>
             (let title_text = ''['' @ appName (config m1) @ ''] ''
                               @ or_string (map_option (toUpperCase P) (severity r)) ''ERROR''
                               @ '': '' @ take 100 (message r)
              in case formatDescription P (now_format E) m1 r of
                   Inl e \<Rightarrow> \<lparr> result = Inl e, manager = m1, calls = [], logs = [] \<rparr>
                 | Inr description_text \<Rightarrow>
                     (let issueInput =
                            \<lparr> title = title_text,
                              description = description_text,
                              ici_teamId = teamId (config m1),
                              priority = getPriority m1 (severity r),
                              ici_labelIds = labelIds (config m1) \<rparr>;
                          failed = (\<lambda>e.
                            \<lparr> result = Inl e,
                              manager = m1,
                              calls = [CreateIssue issueInput],
                              logs = [(Err, ''Failed to create fault issue: '' @ String_exn e)] \<rparr>)
                      in case createIssue_reply E of
                           Inl e \<Rightarrow> failed e
                         | Inr None \<Rightarrow> failed (Error ''Issue creation returned no issue'')
                         | Inr (Some createdIssue) \<Rightarrow>
                             \<lparr> result =
                                 Inr \<lparr> issueId = issue_id createdIssue,
                                       res_identifier = issue_identifier createdIssue,
                                       res_url = issue_url createdIssue,
                                       isDuplicate = False \<rparr>,
                               manager =
                                 m1\<lparr>faultCache := (faultCache m1)(h \<mapsto>
                                      \<lparr> hash = h, rec_issueId = issue_id createdIssue,
                                        count = 1, lastSeen = now_insert E \<rparr>)\<rparr>,
                               calls = [CreateIssue issueInput],
                               logs = [(Info, ''Created fault issue: ''
                                              @ issue_identifier createdIssue)] \<rparr>)))"

definition clearCache :: "FaultManager \<Rightarrow> FaultManager" where
  "clearCache m = m\<lparr>faultCache := Map.empty\<rparr>"

text \<open>
  \<open>report\<close> leaves the deduplication block for the code that builds a new issue exactly
  when deduplication is off or \<open>checkDuplicate\<close> returns \<open>null\<close>.
\<close>

definition fresh_path :: "platform \<Rightarrow> env \<Rightarrow> FaultReport \<Rightarrow> FaultManager \<Rightarrow> bool" where
  "fresh_path P E r m =
     (\<not> deduplicate (config m) \<or>
      fst (checkDuplicate (now_check E) (generateFaultHash P r) m) = None)"

text \<open>
  The ticket body of a report can be formatted: \<open>JSON.stringify\<close> accepts the context and
  the metadata, where \<open>formatDescription\<close> passes them to it. Only then does \<open>report\<close>
  reach the call of \<open>createIssue\<close>.
\<close>

definition stringifies :: "platform \<Rightarrow> json_object option \<Rightarrow> bool" where
  "stringifies P x =
     (if nonempty_object x
      then (case JSON_stringify P (the x) of Inl e \<Rightarrow> False | Inr text \<Rightarrow> True)
      else True)"

definition serialisable :: "platform \<Rightarrow> FaultReport \<Rightarrow> bool" where
  "serialisable P r = (stringifies P (report_context r) \<and> stringifies P (metadata r))"

text \<open>The manager as the deduplication block leaves it on the way to a new issue: with
  deduplication on, \<open>checkDuplicate\<close> has found no record or has deleted an expired one.\<close>

definition evicted :: "platform \<Rightarrow> FaultReport \<Rightarrow> FaultManager \<Rightarrow> FaultManager" where
  "evicted P r m =
     (if deduplicate (config m)
      then m\<lparr>faultCache := (faultCache m)(generateFaultHash P r := None)\<rparr>
      else m)"

text \<open>A caller that awaits each \<open>report\<close> before it submits the next one: the outcomes,
  in order. Each submission comes with what its call reads from the outside.\<close>

fun submit_all :: "platform \<Rightarrow> (env \<times> FaultReport) list \<Rightarrow> FaultManager \<Rightarrow> outcome list" where
  "submit_all P [] m = []"
| "submit_all P ((E, r) # rest) m =
     (let out = report P E r m in out # submit_all P rest (manager out))"

text \<open>The outcome of a submission is a new ticket: the creation answered with an issue,
  the result carries that issue with \<open>isDuplicate = false\<close>, and the one gateway call made
  is a creation.\<close>

definition created_fresh :: "env \<times> FaultReport \<Rightarrow> outcome \<Rightarrow> bool" where
  "created_fresh sub out =
     (case createIssue_reply (fst sub) of
        Inr (Some i) \<Rightarrow>
          result out = Inr \<lparr> issueId = issue_id i, res_identifier = issue_identifier i,
                              res_url = issue_url i, isDuplicate = False \<rparr> \<and>
          (case calls out of [CreateIssue input] \<Rightarrow> True | _ \<Rightarrow> False)
      | _ \<Rightarrow> False)"

section \<open>The webhook handler\<close>

text \<open>
  In this part a string stands for its UTF-8 bytes, so that \<open>Buffer.from(s)\<close> is \<open>s\<close>
  itself and \<open>length\<close> is the byte length. Node's \<open>crypto.timingSafeEqual\<close> throws a
  \<open>RangeError\<close> on buffers of different byte lengths and compares the bytes otherwise.
  The HMAC-SHA256 hex digest (\<open>hmac secret payload\<close>) and \<open>JSON.stringify\<close> on a payload
  are parameters. A registered callback is a value of type \<open>'h\<close>; the logger is left out.
\<close>

definition timingSafeEqual :: "string \<Rightarrow> string \<Rightarrow> exn + bool" where
  "timingSafeEqual a b =
     (if length a \<noteq> length b
      then Inl (RangeError ''Input buffers must have the same byte length'')
      else Inr (a = b))"

record WebhookPayload =
  payload_action :: string
  payload_type :: string
  payload_data :: json_object
  createdAt :: string
  organizationId :: string
  webhookId :: string
  webhookTimestamp :: int

record 'h LinearWebhookHandler =
  signingSecret :: "string option"
  handlers :: "string \<rightharpoonup> 'h list"

definition verifySignature ::
    "(string \<Rightarrow> string \<Rightarrow> string) \<Rightarrow> 'h LinearWebhookHandler \<Rightarrow> string \<Rightarrow> string \<Rightarrow> exn + bool" where
  "verifySignature hmac w payload signature =
     (case signingSecret w of
        None \<Rightarrow> Inr True
      | Some secret \<Rightarrow>
          if secret = [] then Inr True
          else timingSafeEqual signature (hmac secret payload))"

text \<open>\<open>handlers.get(k) || []\<close>.\<close>

definition handlers_for :: "'h LinearWebhookHandler \<Rightarrow> string \<Rightarrow> 'h list" where
  "handlers_for w k = (case handlers w k of None \<Rightarrow> [] | Some hs \<Rightarrow> hs)"

text \<open>\<open>process\<close> rejects with \<open>Inl e\<close>, or resolves after it has called the callbacks it
  returns here, in this order; what a callback throws is caught and logged.\<close>

definition process ::
    "(string \<Rightarrow> string \<Rightarrow> string) \<Rightarrow> (WebhookPayload \<Rightarrow> string) \<Rightarrow> 'h LinearWebhookHandler \<Rightarrow>
     WebhookPayload \<Rightarrow> string option \<Rightarrow> exn + 'h list" where
  "process hmac stringify w payload signature =
     (let allHandlers =
            handlers_for w (payload_type payload)
            @ handlers_for w (payload_type payload @ ''.'' @ payload_action payload)
            @ handlers_for w ''*''
      in case signature of
           None \<Rightarrow> Inr allHandlers
         | Some sig \<Rightarrow>
             if sig = [] then Inr allHandlers
             else (case verifySignature hmac w (stringify payload) sig of
                     Inl e \<Rightarrow> Inl e
                   | Inr False \<Rightarrow> Inl (Error ''Invalid webhook signature'')
                   | Inr True \<Rightarrow> Inr allHandlers))"

text \<open>The Express middleware: the status and JSON body it answers with.\<close>

datatype response_body = Success | ErrorBody string

record response =
  status :: nat
  json :: response_body

text \<open>\<open>error instanceof Error && error.message === msg\<close>.\<close>

fun is_Error_with_message :: "exn \<Rightarrow> string \<Rightarrow> bool" where
  "is_Error_with_message (Error m) msg = (m = msg)"
| "is_Error_with_message (RangeError m) msg = (m = msg)"
| "is_Error_with_message (TypeError m) msg = (m = msg)"
| "is_Error_with_message (Thrown s) msg = False"

definition createWebhookMiddleware ::
    "(string \<Rightarrow> string \<Rightarrow> string) \<Rightarrow> (WebhookPayload \<Rightarrow> string) \<Rightarrow> 'h LinearWebhookHandler \<Rightarrow>
     WebhookPayload \<Rightarrow> string option \<Rightarrow> response" where
  "createWebhookMiddleware hmac stringify handler payload signature =
     (case process hmac stringify handler payload signature of
        Inr _ \<Rightarrow> \<lparr> status = 200, json = Success \<rparr>
      | Inl error \<Rightarrow>
          if is_Error_with_message error ''Invalid webhook signature''
          then \<lparr> status = 401, json = ErrorBody ''Invalid signature'' \<rparr>
          else \<lparr> status = 500, json = ErrorBody ''Internal server error'' \<rparr>)"

section \<open>Example values\<close>

text \<open>A stand-in for \<open>JSON.stringify\<close>: it throws on an object with a BigInt value, as
  the platform does, and renders the keys of any other object.\<close>

fun is_BigInt :: "js_value \<Rightarrow> bool" where
  "is_BigInt (BigInt n) = True"
| "is_BigInt (Text s) = False"
| "is_BigInt (Number n) = False"

definition example_JSON_stringify :: "json_object \<Rightarrow> exn + string" where
  "example_JSON_stringify kvs =
     (if list_ex (\<lambda>kv. is_BigInt (snd kv)) kvs
      then Inl (TypeError ''Do not know how to serialize a BigInt'')
      else Inr (''{'' @ join '','' (map fst kvs) @ ''}''))"

text \<open>A platform whose digest is the identity (no two contents collide), the manager,
  report and created issue of the repository's deduplication test, and outside worlds
  for it.\<close>

definition example_platform :: platform where
  "example_platform =
     \<lparr> md5_hex = (\<lambda>s. s), toISOString = (\<lambda>t. show_nat (nat t)),
       toUpperCase = (\<lambda>s. s), JSON_stringify = example_JSON_stringify \<rparr>"

definition example_config :: FaultConfigInput where
  "example_config =
     \<lparr> in_accessToken = ''test-token'', in_teamId = ''team-123'', in_labelIds = None,
       in_defaultPriority = None, in_appName = None, in_environment = None,
       in_deduplicate = Some True, in_dedupeWindow = Some 60000 \<rparr>"

definition example_report :: FaultReport where
  "example_report =
     \<lparr> message = ''Duplicate error'',
       stack = Some (''Error: Duplicate'' @ [newline] @ ''    at test.js:1:1''),
       report_context = None, severity = None, userId = None, url = None, metadata = None \<rparr>"

text \<open>The report of the test with a BigInt in its context.\<close>

definition bigint_report :: FaultReport where
  "bigint_report = example_report\<lparr>report_context := Some [(''attempt'', BigInt 1)]\<rparr>"

definition example_issue :: Issue where
  "example_issue =
     \<lparr> issue_id = ''issue-123'', issue_identifier = ''TEST-1'',
       issue_url = ''https://linear.app/test/issue/TEST-1'' \<rparr>"

text \<open>\<open>example_env t c i\<close>: every clock reading of the call is \<open>t\<close>, the comment call
  answers \<open>c\<close> and the issue creation answers \<open>i\<close>.\<close>

definition example_env :: "int \<Rightarrow> exn option \<Rightarrow> exn + Issue option \<Rightarrow> env" where
  "example_env t c i =
     \<lparr> now_check = t, now_touch = t, now_comment = t, now_format = t, now_insert = t,
       createComment_reply = c, createIssue_reply = i \<rparr>"

text \<open>A handler with the secret of the repository's webhook tests, a stand-in digest
  of 64 hex characters, a stand-in serialisation, and a payload.\<close>

definition example_handler :: "nat LinearWebhookHandler" where
  "example_handler = \<lparr> signingSecret = Some ''test-secret'', handlers = [''Issue'' \<mapsto> [0]] \<rparr>"

definition example_hmac :: "string \<Rightarrow> string \<Rightarrow> string" where
  "example_hmac secret payload = replicate 64 CHR ''0''"

definition example_stringify :: "WebhookPayload \<Rightarrow> string" where
  "example_stringify p = ''{type:'' @ payload_type p @ '',action:'' @ payload_action p @ ''}''"

definition example_payload :: WebhookPayload where
  "example_payload =
     \<lparr> payload_action = ''create'', payload_type = ''Issue'', payload_data = [(''id'', Text ''issue-1'')],
       createdAt = ''2024-01-01T00:00:00.000Z'', organizationId = ''org-1'',
       webhookId = ''webhook-1'', webhookTimestamp = 0 \<rparr>"

text \<open>The manager of the deduplication test after its first report at time 0: the
  cache holds one record, for the fingerprint of \<open>example_report\<close>.\<close>

definition cached_record :: FaultRecord where
  "cached_record =
     \<lparr> hash = ''Duplicate error:Error: Duplicate'', rec_issueId = ''issue-123'',
       count = 1, lastSeen = 0 \<rparr>"

definition cached_manager :: FaultManager where
  "cached_manager =
     (constructor example_config)
       \<lparr>faultCache := [''Duplicate error:Error: Duplicate'' \<mapsto> cached_record]\<rparr>"

text \<open>A manager with deduplication off whose cache holds a record all the same.\<close>

definition undeduplicated_manager :: FaultManager where
  "undeduplicated_manager =
     (constructor (example_config\<lparr>in_deduplicate := Some False\<rparr>))
       \<lparr>faultCache := [''Duplicate error:Error: Duplicate'' \<mapsto> cached_record\<lparr>count := 7\<rparr>]\<rparr>"

section \<open>Facts about the operations\<close>

lemma first_split: "first (split d s) = Some (takeWhile (\<lambda>c. c \<noteq> d) s)"
  by (induction s) (auto simp: first_def split: list.splits)

lemma checkDuplicate_Some:
  "checkDuplicate now h m = (Some ex, m1) \<longleftrightarrow>
     faultCache m h = Some ex \<and> now - lastSeen ex \<le> dedupeWindow (config m) \<and> m1 = m"
  by (auto simp: checkDuplicate_def Let_def split: option.splits)

lemma checkDuplicate_None:
  "checkDuplicate now h m = (None, m1) \<longleftrightarrow>
     (faultCache m h = None \<and> m1 = m) \<or>
     (\<exists>ex. faultCache m h = Some ex \<and> now - lastSeen ex > dedupeWindow (config m)
        \<and> m1 = m\<lparr>faultCache := (faultCache m)(h := None)\<rparr>)"
  by (auto simp: checkDuplicate_def Let_def split: option.splits)

lemma fst_checkDuplicate_None:
  "fst (checkDuplicate now h m) = None \<longleftrightarrow>
     (case faultCache m h of None \<Rightarrow> True
      | Some ex \<Rightarrow> now - lastSeen ex > dedupeWindow (config m))"
  by (auto simp: checkDuplicate_def Let_def split: option.splits)

text \<open>The duplicate branch of \<open>report\<close>, in full.\<close>

lemma report_duplicate:
  assumes "deduplicate (config m)"
    and "faultCache m (generateFaultHash P r) = Some ex"
    and "now_check E - lastSeen ex \<le> dedupeWindow (config m)"
  shows "report P E r m =
     \<lparr> result = Inr \<lparr> issueId = rec_issueId ex, res_identifier = ''duplicate'',
                      res_url = ''https://linear.app/issue/'' @ rec_issueId ex,
                      isDuplicate = True \<rparr>,
       manager = m\<lparr>faultCache := (faultCache m)(generateFaultHash P r \<mapsto>
                      ex\<lparr>count := count ex + 1, lastSeen := now_touch E\<rparr>)\<rparr>,
       calls = [CreateComment \<lparr> cci_issueId = rec_issueId ex,
                  body = ''This error occurred again at '' @ toISOString P (now_comment E)
                         @ ''. Total occurrences: '' @ show_nat (count ex + 1) \<rparr>],
       logs = (Info, ''Duplicate fault detected, count: '' @ show_nat (count ex + 1)) #
              (case createComment_reply E of
                 None \<Rightarrow> []
               | Some e \<Rightarrow>
                   [(Warn, ''Failed to add comment to existing issue: '' @ String_exn e)]) \<rparr>"
  using assms by (simp add: report_def checkDuplicate_def Let_def)

text \<open>The branch that creates an issue: what the deduplication block hands over, and
  each component of the outcome.\<close>

lemma fresh_lookup:
  assumes "fresh_path P E r m"
  shows "(if deduplicate (config m)
          then checkDuplicate (now_check E) (generateFaultHash P r) m else (None, m))
         = (None, evicted P r m)"
  using assms
  by (auto simp: fresh_path_def evicted_def checkDuplicate_def Let_def fun_upd_idem
           split: option.splits)

lemma formatDescription_serialisable:
  assumes "serialisable P r"
  shows "\<exists>d. formatDescription P now m r = Inr d"
  using assms
  by (auto simp: formatDescription_def serialisable_def stringifies_def Let_def
           split: sum.splits if_splits)

lemma formatDescription_unserialisable:
  assumes "\<not> serialisable P r"
  shows "\<exists>e. formatDescription P now m r = Inl e"
  using assms
  by (auto simp: formatDescription_def serialisable_def stringifies_def Let_def
           split: sum.splits if_splits)

text \<open>When the description cannot be formatted, \<open>report\<close> rejects before the gateway.\<close>

lemma report_unformatted:
  assumes "fresh_path P E r m"
    and "formatDescription P (now_format E) (evicted P r m) r = Inl e"
  shows "report P E r m =
           \<lparr> result = Inl e, manager = evicted P r m, calls = [], logs = [] \<rparr>"
  by (simp add: report_def fresh_lookup [OF assms(1)] Let_def assms(2))

lemma report_fresh_result:
  assumes "fresh_path P E r m" and "serialisable P r"
  shows "result (report P E r m) =
     (case createIssue_reply E of
        Inl e \<Rightarrow> Inl e
      | Inr None \<Rightarrow> Inl (Error ''Issue creation returned no issue'')
      | Inr (Some i) \<Rightarrow> Inr \<lparr> issueId = issue_id i, res_identifier = issue_identifier i,
                                res_url = issue_url i, isDuplicate = False \<rparr>)"
proof -
  from formatDescription_serialisable [OF assms(2)]
  obtain d where "formatDescription P (now_format E) (evicted P r m) r = Inr d" by blast
  then show ?thesis
    by (simp add: report_def fresh_lookup [OF assms(1)] Let_def
             split: sum.splits option.splits)
qed

lemma report_fresh_manager:
  assumes "fresh_path P E r m" and "serialisable P r"
  shows "manager (report P E r m) =
     (case createIssue_reply E of
        Inr (Some i) \<Rightarrow>
          (evicted P r m)\<lparr>faultCache := (faultCache (evicted P r m))(generateFaultHash P r \<mapsto>
             \<lparr> hash = generateFaultHash P r, rec_issueId = issue_id i, count = 1,
               lastSeen = now_insert E \<rparr>)\<rparr>
      | _ \<Rightarrow> evicted P r m)"
proof -
  from formatDescription_serialisable [OF assms(2)]
  obtain d where "formatDescription P (now_format E) (evicted P r m) r = Inr d" by blast
  then show ?thesis
    by (simp add: report_def fresh_lookup [OF assms(1)] Let_def
             split: sum.splits option.splits)
qed

lemma report_fresh_calls:
  assumes "fresh_path P E r m" and "serialisable P r"
  shows "\<exists>input. calls (report P E r m) = [CreateIssue input] \<and>
                 priority input = getPriority m (severity r)"
proof -
  from formatDescription_serialisable [OF assms(2)]
  obtain d where "formatDescription P (now_format E) (evicted P r m) r = Inr d" by blast
  then show ?thesis
    by (simp add: report_def fresh_lookup [OF assms(1)] Let_def evicted_def getPriority_def
             split: sum.splits option.splits)
qed

lemma report_fresh_manager_cases:
  assumes "fresh_path P E r m"
  shows "config (manager (report P E r m)) = config m \<and>
         (faultCache (manager (report P E r m)) = faultCache (evicted P r m) \<or>
          faultCache (manager (report P E r m)) (generateFaultHash P r) \<noteq> None \<and>
          (\<forall>k. k \<noteq> generateFaultHash P r \<longrightarrow>
               faultCache (manager (report P E r m)) k = faultCache (evicted P r m) k))"
proof (cases "serialisable P r")
  case True
  have c: "config (evicted P r m) = config m" by (simp add: evicted_def)
  show ?thesis
  proof (cases "createIssue_reply E")
    case (Inl e)
    with c show ?thesis by (simp add: report_fresh_manager [OF assms True])
  next
    case (Inr reply)
    with c show ?thesis
      by (cases reply) (simp_all add: report_fresh_manager [OF assms True])
  qed
next
  case False
  from formatDescription_unserialisable [OF False]
  obtain e where "formatDescription P (now_format E) (evicted P r m) r = Inl e" by blast
  from report_unformatted [OF assms this] show ?thesis by (simp add: evicted_def)
qed

lemma report_fresh_not_duplicate:
  assumes "fresh_path P E r m" and "result (report P E r m) = Inr res"
  shows "\<not> isDuplicate res"
proof (cases "serialisable P r")
  case True
  from assms(2) show ?thesis
    unfolding report_fresh_result [OF assms(1) True]
    by (auto split: sum.splits option.splits)
next
  case False
  from formatDescription_unserialisable [OF False]
  obtain e where "formatDescription P (now_format E) (evicted P r m) r = Inl e" by blast
  from report_unformatted [OF assms(1) this] assms(2) show ?thesis by simp
qed

lemma report_config: "config (manager (report P E r m)) = config m"
proof (cases "fresh_path P E r m")
  case True
  from report_fresh_manager_cases [OF True] show ?thesis by blast
next
  case False
  then obtain ex where d: "deduplicate (config m)"
      and c: "faultCache m (generateFaultHash P r) = Some ex"
      and l: "now_check E - lastSeen ex \<le> dedupeWindow (config m)"
    by (auto simp: fresh_path_def fst_checkDuplicate_None split: option.splits)
  show ?thesis
    unfolding report_duplicate [OF d c l] by simp
qed

text \<open>The example values.\<close>

lemma example_hash:
  "generateFaultHash example_platform example_report = ''Duplicate error:Error: Duplicate''"
  by (simp add: generateFaultHash_def example_platform_def example_report_def newline_def
                first_def or_string_def)

lemma example_fresh:
  "fresh_path example_platform E example_report (constructor example_config)"
  by (simp add: fresh_path_def fst_checkDuplicate_None constructor_def)

lemma cached_config:
  "deduplicate (config cached_manager)" "dedupeWindow (config cached_manager) = 60000"
  by (simp_all add: cached_manager_def constructor_def example_config_def)

lemma cached_lookup:
  "faultCache cached_manager (generateFaultHash example_platform example_report)
     = Some cached_record"
  by (simp add: example_hash cached_manager_def)

lemma cached_live:
  "t \<le> 60000 \<Longrightarrow>
     now_check (example_env t c i) - lastSeen cached_record
       \<le> dedupeWindow (config cached_manager)"
  by (simp add: cached_config example_env_def cached_record_def)

lemma cached_expired:
  "t > 60000 \<Longrightarrow>
     fresh_path example_platform (example_env t c i) example_report cached_manager"
  by (simp add: fresh_path_def fst_checkDuplicate_None cached_lookup cached_config)
     (simp add: example_env_def cached_record_def)

lemma example_serialisable: "serialisable example_platform example_report"
  by (simp add: serialisable_def stringifies_def nonempty_object_def example_report_def)

lemma bigint_hash:
  "generateFaultHash example_platform bigint_report = ''Duplicate error:Error: Duplicate''"
  using example_hash by (simp add: generateFaultHash_def bigint_report_def)

lemma bigint_unformatted:
  "formatDescription example_platform now m bigint_report
     = Inl (TypeError ''Do not know how to serialize a BigInt'')"
  by (simp add: formatDescription_def bigint_report_def nonempty_object_def Let_def
                example_platform_def example_JSON_stringify_def)

lemma bigint_fresh:
  "fresh_path example_platform E bigint_report (constructor example_config)"
  by (simp add: fresh_path_def fst_checkDuplicate_None constructor_def)

lemma bigint_expired:
  "t > 60000 \<Longrightarrow>
     fresh_path example_platform (example_env t c i) bigint_report cached_manager"
  by (simp add: fresh_path_def fst_checkDuplicate_None bigint_hash cached_lookup [unfolded example_hash]
                cached_config)
     (simp add: example_env_def cached_record_def)

lemma show_nat_2: "show_nat (Suc (Suc 0)) = ''2''"
  by code_simp

lemma undeduplicated_config: "\<not> deduplicate (config undeduplicated_manager)"
  by (simp add: undeduplicated_manager_def constructor_def)

text \<open>The creating branch, continued.\<close>

lemma fresh_path_disabled: "\<not> deduplicate (config m) \<Longrightarrow> fresh_path P E r m"
  by (simp add: fresh_path_def)

lemma evicted_upd:
  "(faultCache (evicted P r m))(generateFaultHash P r \<mapsto> x) = (faultCache m)(generateFaultHash P r \<mapsto> x)"
  by (simp add: evicted_def)

lemma report_fresh_success_cache:
  assumes "fresh_path P E r m" and "serialisable P r"
    and "createIssue_reply E = Inr (Some i)"
  shows "faultCache (manager (report P E r m)) =
           (faultCache m)(generateFaultHash P r \<mapsto>
              \<lparr> hash = generateFaultHash P r, rec_issueId = issue_id i, count = 1,
                lastSeen = now_insert E \<rparr>)"
  by (simp add: report_fresh_manager [OF assms(1,2)] assms(3) evicted_upd)

text \<open>Without a created issue the creating branch leaves the manager as the
  deduplication block left it, whether the creation failed or was never reached.\<close>

lemma report_fresh_failure_manager:
  assumes "fresh_path P E r m"
    and "createIssue_reply E = Inl e \<or> createIssue_reply E = Inr None"
  shows "manager (report P E r m) = evicted P r m"
proof (cases "serialisable P r")
  case True
  from assms(2) show ?thesis
    by (auto simp: report_fresh_manager [OF assms(1) True])
next
  case False
  from formatDescription_unserialisable [OF False]
  obtain e' where "formatDescription P (now_format E) (evicted P r m) r = Inl e'" by blast
  from report_unformatted [OF assms(1) this] show ?thesis by simp
qed

text \<open>What \<open>report\<close> can remove from the cache.\<close>

lemma report_removes_only_expired:
  assumes "faultCache m k = Some x" and "faultCache (manager (report P E r m)) k = None"
  shows "k = generateFaultHash P r \<and> deduplicate (config m) \<and>
         now_check E - lastSeen x > dedupeWindow (config m)"
proof (cases "fresh_path P E r m")
  case True
  from report_fresh_manager_cases [OF True] assms(2)
  have e: "faultCache (evicted P r m) k = None"
    by metis
  with assms(1) have k: "k = generateFaultHash P r" and d: "deduplicate (config m)"
    by (auto simp: evicted_def split: if_splits)
  from True d assms(1) k show ?thesis
    by (auto simp: fresh_path_def fst_checkDuplicate_None)
next
  case False
  then obtain ex where d: "deduplicate (config m)"
      and c: "faultCache m (generateFaultHash P r) = Some ex"
      and l: "now_check E - lastSeen ex \<le> dedupeWindow (config m)"
    by (auto simp: fresh_path_def fst_checkDuplicate_None split: option.splits)
  from assms show ?thesis
    unfolding report_duplicate [OF d c l] by (auto split: if_splits)
qed

lemma expired_fresh:
  assumes "faultCache m (generateFaultHash P r) = Some old"
    and "now_check E - lastSeen old > dedupeWindow (config m)"
  shows "fresh_path P E r m"
  using assms by (simp add: fresh_path_def fst_checkDuplicate_None)

text \<open>Submissions with deduplication off.\<close>

lemma report_disabled_created:
  assumes "\<not> deduplicate (config m)" and "serialisable P r"
    and "createIssue_reply E = Inr (Some i)"
  shows "created_fresh (E, r) (report P E r m)"
proof -
  have f: "fresh_path P E r m" using assms(1) by (rule fresh_path_disabled)
  from report_fresh_calls [OF f assms(2)]
  obtain input where "calls (report P E r m) = [CreateIssue input]"
    by blast
  then show ?thesis
    by (simp add: created_fresh_def assms(3) report_fresh_result [OF f assms(2)])
qed

lemma submit_all_disabled:
  assumes "\<not> deduplicate (config m)"
    and "\<forall>(E, r) \<in> set subs. serialisable P r \<and> (\<exists>i. createIssue_reply E = Inr (Some i))"
  shows "list_all2 created_fresh subs (submit_all P subs m)"
  using assms
proof (induction subs arbitrary: m)
  case Nil
  then show ?case by simp
next
  case (Cons sub subs)
  obtain E r where sub: "sub = (E, r)" by (cases sub)
  from Cons.prems(2) sub obtain i where i: "createIssue_reply E = Inr (Some i)"
    and s: "serialisable P r" by auto
  have d: "\<not> deduplicate (config (manager (report P E r m)))"
    using Cons.prems(1) by (simp add: report_config)
  have rest: "list_all2 created_fresh subs (submit_all P subs (manager (report P E r m)))"
    using Cons.IH [OF d] Cons.prems(2) by simp
  from report_disabled_created [OF Cons.prems(1) s i] rest sub
  show ?case by (simp add: Let_def)
qed

lemma created_fresh_result:
  "created_fresh sub a \<Longrightarrow> created_fresh sub b \<Longrightarrow> result a = result b"
  by (auto simp: created_fresh_def split: sum.splits option.splits)

lemma created_fresh_results:
  "list_all2 created_fresh subs xs \<Longrightarrow> list_all2 created_fresh subs ys \<Longrightarrow>
     map result xs = map result ys"
proof (induction subs arbitrary: xs ys)
  case Nil
  then show ?case by simp
next
  case (Cons sub subs)
  from Cons.prems obtain x xs' y ys' where
    xs: "xs = x # xs'" and ys: "ys = y # ys'" and
    hd: "created_fresh sub x" "created_fresh sub y" and
    tl: "list_all2 created_fresh subs xs'" "list_all2 created_fresh subs ys'"
    by (auto simp: list_all2_Cons1)
  from Cons.IH [OF tl] created_fresh_result [OF hd] xs ys show ?case by simp
qed

text \<open>The webhook handler with a secret configured.\<close>

lemma verifySignature_configured:
  assumes "signingSecret w = Some secret" and "secret \<noteq> []"
  shows "verifySignature hmac w raw signature = timingSafeEqual signature (hmac secret raw)"
  using assms by (simp add: verifySignature_def)

lemma process_signed:
  assumes "signature \<noteq> []"
  shows "process hmac stringify w payload (Some signature) =
           (case verifySignature hmac w (stringify payload) signature of
              Inl e \<Rightarrow> Inl e
            | Inr False \<Rightarrow> Inl (Error ''Invalid webhook signature'')
            | Inr True \<Rightarrow> Inr (handlers_for w (payload_type payload)
                               @ handlers_for w (payload_type payload @ ''.'' @ payload_action payload)
                               @ handlers_for w ''*''))"
  using assms by (simp add: process_def Let_def split: sum.splits bool.splits)

text \<open>For contrast: a wrong signature of the digest's length is the recognisable condition.\<close>

lemma wrong_signature_same_length:
  assumes "signingSecret w = Some secret" and "secret \<noteq> []" and "signature \<noteq> []"
    and "length signature = length (hmac secret (stringify payload))"
    and "signature \<noteq> hmac secret (stringify payload)"
  shows "process hmac stringify w payload (Some signature) = Inl (Error ''Invalid webhook signature'')"
    and "status (createWebhookMiddleware hmac stringify w payload (Some signature)) = 401"
  using assms
  by (simp_all add: createWebhookMiddleware_def process_signed verifySignature_configured timingSafeEqual_def)

section \<open>Severity to priority\<close>

text \<open>
  C6. The mapper has no failing branch: \<open>critical\<close> gives level 1, \<open>error\<close> level 2,
  \<open>warning\<close> level 3, and an absent severity or any other string gives the configured
  default level. The constructor sets that default to 2 when the caller gives none, and
  to the caller's level otherwise.
\<close>

theorem getPriority_mapping:
  "getPriority m (Some ''critical'') = 1 \<and>
   getPriority m (Some ''error'') = 2 \<and>
   getPriority m (Some ''warning'') = 3 \<and>
   getPriority m None = defaultPriority (config m) \<and>
   (s \<notin> {''critical'', ''error'', ''warning''} \<longrightarrow>
      getPriority m (Some s) = defaultPriority (config m)) \<and>
   (in_defaultPriority c = None \<longrightarrow> defaultPriority (config (constructor c)) = 2) \<and>
   (in_defaultPriority c = Some p \<and> p \<noteq> 0 \<longrightarrow>
      defaultPriority (config (constructor c)) = p)"
  by (simp add: getPriority_def constructor_def)

theorem getPriority_mapping_witness:
  "''info'' \<notin> {''critical'', ''error'', ''warning''} \<and>
   in_defaultPriority example_config = None \<and>
   in_defaultPriority (example_config\<lparr>in_defaultPriority := Some 4\<rparr>) = Some 4 \<and>
   (4::nat) \<noteq> 0 \<and>
   getPriority (constructor example_config) (Some ''critical'') = 1 \<and>
   getPriority (constructor example_config) (Some ''error'') = 2 \<and>
   getPriority (constructor example_config) (Some ''warning'') = 3 \<and>
   getPriority (constructor example_config) None = 2 \<and>
   getPriority (constructor example_config) (Some ''info'') = 2 \<and>
   getPriority (constructor (example_config\<lparr>in_defaultPriority := Some 4\<rparr>)) (Some ''info'') = 4"
  using getPriority_mapping [of "constructor example_config" "''info''" example_config 4]
        getPriority_mapping [of "constructor (example_config\<lparr>in_defaultPriority := Some 4\<rparr>)"
                                "''info''" "example_config\<lparr>in_defaultPriority := Some 4\<rparr>" 4]
  by (simp add: example_config_def)

section \<open>The fingerprint\<close>

text \<open>
  C2. Two reports with the same message and the same first line of the stack, or with no
  stack in either, have the same fingerprint, whatever their context, metadata, severity,
  user id and url are. The fingerprint is the digest of the message, a colon and that
  first line; nothing else enters it.
\<close>

theorem generateFaultHash_deterministic:
  assumes "message r1 = message r2"
    and "(stack r1 = None \<and> stack r2 = None) \<or>
         (\<exists>s1 s2. stack r1 = Some s1 \<and> stack r2 = Some s2 \<and>
                  first (split newline s1) = first (split newline s2))"
  shows "generateFaultHash P r1 = generateFaultHash P r2"
  using assms by (auto simp: generateFaultHash_def)

theorem generateFaultHash_deterministic_witness:
  "message example_report =
     message (example_report\<lparr>stack := Some ''Error: Duplicate'', severity := Some ''critical'',
        report_context := Some [(''k'', Text ''1'')], metadata := Some [], userId := Some ''u'',
        url := Some ''/x''\<rparr>) \<and>
   first (split newline (''Error: Duplicate'' @ [newline] @ ''    at test.js:1:1''))
     = first (split newline ''Error: Duplicate'') \<and>
   generateFaultHash example_platform example_report =
     generateFaultHash example_platform
       (example_report\<lparr>stack := Some ''Error: Duplicate'', severity := Some ''critical'',
          report_context := Some [(''k'', Text ''1'')], metadata := Some [], userId := Some ''u'',
          url := Some ''/x''\<rparr>)"
proof -
  let ?r2 = "example_report\<lparr>stack := Some ''Error: Duplicate'', severity := Some ''critical'',
       report_context := Some [(''k'', Text ''1'')], metadata := Some [], userId := Some ''u'',
       url := Some ''/x''\<rparr>"
  have a: "message example_report = message ?r2" by simp
  have f: "first (split newline (''Error: Duplicate'' @ [newline] @ ''    at test.js:1:1''))
             = first (split newline ''Error: Duplicate'')"
    by (simp add: first_def newline_def)
  have b: "(stack example_report = None \<and> stack ?r2 = None) \<or>
         (\<exists>s1 s2. stack example_report = Some s1 \<and> stack ?r2 = Some s2 \<and>
                  first (split newline s1) = first (split newline s2))"
    using f by (simp add: example_report_def)
  from generateFaultHash_deterministic [OF a b, of example_platform] a f
  show ?thesis by blast
qed

section \<open>The duplicate branch\<close>

text \<open>
  C4. When a report finds a live record of its fingerprint and the comment call to the
  tracker fails, \<open>report\<close> still resolves, with \<open>isDuplicate = true\<close> and the ticket id of
  the record; the record in the cache has its count incremented and its last-seen time
  set to the clock reading; the failure appears as a warning in the log and nowhere in
  the result.
\<close>

theorem comment_failure_isolated:
  assumes "deduplicate (config m)"
    and "faultCache m (generateFaultHash P r) = Some ex"
    and "now_check E - lastSeen ex \<le> dedupeWindow (config m)"
    and "createComment_reply E = Some e"
  shows "result (report P E r m) =
           Inr \<lparr> issueId = rec_issueId ex, res_identifier = ''duplicate'',
                 res_url = ''https://linear.app/issue/'' @ rec_issueId ex,
                 isDuplicate = True \<rparr> \<and>
         faultCache (manager (report P E r m)) (generateFaultHash P r) =
           Some (ex\<lparr>count := count ex + 1, lastSeen := now_touch E\<rparr>) \<and>
         logs (report P E r m) =
           [(Info, ''Duplicate fault detected, count: '' @ show_nat (count ex + 1)),
            (Warn, ''Failed to add comment to existing issue: '' @ String_exn e)]"
  unfolding report_duplicate [OF assms(1-3)] using assms(4) by simp

theorem comment_failure_isolated_witness:
  "deduplicate (config cached_manager) \<and>
   faultCache cached_manager (generateFaultHash example_platform example_report)
     = Some cached_record \<and>
   now_check (example_env 1000 (Some (Error ''rate limited'')) (Inr None))
       - lastSeen cached_record
     \<le> dedupeWindow (config cached_manager) \<and>
   createComment_reply (example_env 1000 (Some (Error ''rate limited'')) (Inr None))
     = Some (Error ''rate limited'') \<and>
   result (report example_platform
             (example_env 1000 (Some (Error ''rate limited'')) (Inr None))
             example_report cached_manager) =
     Inr \<lparr> issueId = ''issue-123'', res_identifier = ''duplicate'',
           res_url = ''https://linear.app/issue/issue-123'', isDuplicate = True \<rparr> \<and>
   faultCache (manager (report example_platform
                          (example_env 1000 (Some (Error ''rate limited'')) (Inr None))
                          example_report cached_manager))
       ''Duplicate error:Error: Duplicate'' =
     Some \<lparr> hash = ''Duplicate error:Error: Duplicate'', rec_issueId = ''issue-123'',
            count = 2, lastSeen = 1000 \<rparr> \<and>
   logs (report example_platform
           (example_env 1000 (Some (Error ''rate limited'')) (Inr None))
           example_report cached_manager) =
     [(Info, ''Duplicate fault detected, count: 2''),
      (Warn, ''Failed to add comment to existing issue: Error: rate limited'')]"
proof -
  let ?E = "example_env 1000 (Some (Error ''rate limited'')) (Inr None)"
  have l: "now_check ?E - lastSeen cached_record \<le> dedupeWindow (config cached_manager)"
    by (rule cached_live) simp
  have c: "createComment_reply ?E = Some (Error ''rate limited'')"
    by (simp add: example_env_def)
  from comment_failure_isolated [OF cached_config(1) cached_lookup l c]
  show ?thesis
    using cached_config(1) cached_lookup l c
    by (simp add: example_hash cached_record_def example_env_def show_nat_2)
qed

text \<open>
  C8. A result with \<open>isDuplicate = true\<close> has the constant \<open>duplicate\<close> as its
  human-readable identifier and \<open>https://linear.app/issue/\<close> followed by its ticket id as
  its url; the ticket id is the one of the record cached for the fingerprint. The key and
  the url that the tracker returned at creation are not in the cache and not in the
  result.
\<close>

theorem duplicate_envelope:
  assumes "result (report P E r m) = Inr res" and "isDuplicate res"
  shows "res_identifier res = ''duplicate'' \<and>
         res_url res = ''https://linear.app/issue/'' @ issueId res \<and>
         (\<exists>ex. faultCache m (generateFaultHash P r) = Some ex \<and> issueId res = rec_issueId ex)"
proof (cases "fresh_path P E r m")
  case True
  from report_fresh_not_duplicate [OF True assms(1)] assms(2) show ?thesis
    by simp
next
  case False
  then obtain ex where d: "deduplicate (config m)"
      and c: "faultCache m (generateFaultHash P r) = Some ex"
      and l: "now_check E - lastSeen ex \<le> dedupeWindow (config m)"
    by (auto simp: fresh_path_def fst_checkDuplicate_None split: option.splits)
  from assms(1) show ?thesis
    unfolding report_duplicate [OF d c l] using c by auto
qed

theorem duplicate_envelope_witness:
  "result (report example_platform (example_env 1000 None (Inr (Some example_issue)))
             example_report cached_manager) =
     Inr \<lparr> issueId = ''issue-123'', res_identifier = ''duplicate'',
           res_url = ''https://linear.app/issue/issue-123'', isDuplicate = True \<rparr> \<and>
   isDuplicate \<lparr> issueId = ''issue-123'', res_identifier = ''duplicate'',
           res_url = ''https://linear.app/issue/issue-123'', isDuplicate = True \<rparr> \<and>
   res_url \<lparr> issueId = ''issue-123'', res_identifier = ''duplicate'',
           res_url = ''https://linear.app/issue/issue-123'', isDuplicate = True \<rparr>
     \<noteq> issue_url example_issue \<and>
   res_identifier \<lparr> issueId = ''issue-123'', res_identifier = ''duplicate'',
           res_url = ''https://linear.app/issue/issue-123'', isDuplicate = True \<rparr>
     \<noteq> issue_identifier example_issue \<and>
   (\<exists>ex. faultCache cached_manager (generateFaultHash example_platform example_report) = Some ex \<and>
         rec_issueId ex = ''issue-123'')"
proof -
  let ?E = "example_env 1000 None (Inr (Some example_issue))"
  let ?res = "\<lparr> issueId = ''issue-123'', res_identifier = ''duplicate'',
           res_url = ''https://linear.app/issue/issue-123'', isDuplicate = True \<rparr>"
  have l: "now_check ?E - lastSeen cached_record \<le> dedupeWindow (config cached_manager)"
    by (rule cached_live) simp
  have r: "result (report example_platform ?E example_report cached_manager) = Inr ?res"
    unfolding report_duplicate [OF cached_config(1) cached_lookup l]
    by (simp add: cached_record_def)
  have d: "isDuplicate ?res" by simp
  from duplicate_envelope [OF r d] r show ?thesis
    by (auto simp: example_issue_def)
qed

section \<open>Deduplication within the window\<close>

text \<open>
  C1, as amended. With deduplication on, a report whose ticket body can be formatted
  (\<open>JSON.stringify\<close> accepts its context and metadata), that finds no live record of its
  fingerprint and whose issue is created resolves with \<open>isDuplicate = false\<close> and the new
  ticket id; a next report with the same fingerprint, whose lookup reads the clock no more
  than the window after the insertion, resolves with \<open>isDuplicate = true\<close> and that same
  ticket id.
\<close>

theorem dedup_within_window:
  assumes "deduplicate (config m)"
    and "fresh_path P E1 r1 m"
    and "serialisable P r1"
    and "createIssue_reply E1 = Inr (Some i)"
    and "generateFaultHash P r2 = generateFaultHash P r1"
    and "now_check E2 - now_insert E1 \<le> dedupeWindow (config m)"
  shows "result (report P E1 r1 m) =
           Inr \<lparr> issueId = issue_id i, res_identifier = issue_identifier i,
                 res_url = issue_url i, isDuplicate = False \<rparr> \<and>
         result (report P E2 r2 (manager (report P E1 r1 m))) =
           Inr \<lparr> issueId = issue_id i, res_identifier = ''duplicate'',
                 res_url = ''https://linear.app/issue/'' @ issue_id i, isDuplicate = True \<rparr>"
proof -
  let ?m1 = "manager (report P E1 r1 m)"
  let ?rec = "\<lparr> hash = generateFaultHash P r1, rec_issueId = issue_id i, count = 1,
                 lastSeen = now_insert E1 \<rparr>"
  have first: "result (report P E1 r1 m) =
           Inr \<lparr> issueId = issue_id i, res_identifier = issue_identifier i,
                 res_url = issue_url i, isDuplicate = False \<rparr>"
    by (simp add: report_fresh_result [OF assms(2,3)] assms(4))
  have d: "deduplicate (config ?m1)" and w: "dedupeWindow (config ?m1) = dedupeWindow (config m)"
    by (simp_all add: report_config assms(1))
  have c: "faultCache ?m1 (generateFaultHash P r2) = Some ?rec"
    by (simp add: report_fresh_manager [OF assms(2,3)] assms(4,5))
  have l: "now_check E2 - lastSeen ?rec \<le> dedupeWindow (config ?m1)"
    using assms(6) by (simp add: w)
  have second: "result (report P E2 r2 ?m1) =
           Inr \<lparr> issueId = issue_id i, res_identifier = ''duplicate'',
                 res_url = ''https://linear.app/issue/'' @ issue_id i, isDuplicate = True \<rparr>"
    unfolding report_duplicate [OF d c l] by simp
  from first second show ?thesis by simp
qed

theorem dedup_within_window_witness:
  "deduplicate (config (constructor example_config)) \<and>
   fresh_path example_platform (example_env 0 None (Inr (Some example_issue))) example_report
     (constructor example_config) \<and>
   serialisable example_platform example_report \<and>
   createIssue_reply (example_env 0 None (Inr (Some example_issue)))
     = Inr (Some example_issue) \<and>
   generateFaultHash example_platform
       (example_report\<lparr>severity := Some ''critical'', userId := Some ''user-1''\<rparr>)
     = generateFaultHash example_platform example_report \<and>
   now_check (example_env 59999 None (Inr None))
       - now_insert (example_env 0 None (Inr (Some example_issue)))
     \<le> dedupeWindow (config (constructor example_config)) \<and>
   result (report example_platform (example_env 0 None (Inr (Some example_issue)))
             example_report (constructor example_config)) =
     Inr \<lparr> issueId = ''issue-123'', res_identifier = ''TEST-1'',
           res_url = ''https://linear.app/test/issue/TEST-1'', isDuplicate = False \<rparr> \<and>
   result (report example_platform (example_env 59999 None (Inr None))
             (example_report\<lparr>severity := Some ''critical'', userId := Some ''user-1''\<rparr>)
             (manager (report example_platform
                         (example_env 0 None (Inr (Some example_issue)))
                         example_report (constructor example_config)))) =
     Inr \<lparr> issueId = ''issue-123'', res_identifier = ''duplicate'',
           res_url = ''https://linear.app/issue/issue-123'', isDuplicate = True \<rparr>"
proof -
  let ?E1 = "example_env 0 None (Inr (Some example_issue))"
  let ?E2 = "example_env 59999 None (Inr None)"
  let ?m = "constructor example_config"
  let ?r2 = "example_report\<lparr>severity := Some ''critical'', userId := Some ''user-1''\<rparr>"
  have d: "deduplicate (config ?m)"
    by (simp add: constructor_def example_config_def)
  have c: "createIssue_reply ?E1 = Inr (Some example_issue)"
    by (simp add: example_env_def)
  have h: "generateFaultHash example_platform ?r2
             = generateFaultHash example_platform example_report"
    by (simp add: generateFaultHash_def)
  have l: "now_check ?E2 - now_insert ?E1 \<le> dedupeWindow (config ?m)"
    by (simp add: example_env_def constructor_def example_config_def)
  from dedup_within_window [OF d example_fresh example_serialisable c h l]
       d example_fresh [of ?E1] example_serialisable c h l
  show ?thesis by (simp add: example_issue_def)
qed

text \<open>
  C1 as stated speaks of every fault report. A first report with a BigInt in its context
  finds no record, and its creation would be answered with an issue, but
  \<open>formatDescription\<close> throws before the gateway is called: the first result is a
  rejection with the \<open>TypeError\<close>, not \<open>isDuplicate = false\<close>; nothing is stored, and the
  same report submitted again is rejected in the same way, not answered as a duplicate.
\<close>

theorem dedup_unformatted_counterexample:
  "deduplicate (config (constructor example_config)) \<and>
   fresh_path example_platform (example_env 0 None (Inr (Some example_issue))) bigint_report
     (constructor example_config) \<and>
   createIssue_reply (example_env 0 None (Inr (Some example_issue)))
     = Inr (Some example_issue) \<and>
   result (report example_platform (example_env 0 None (Inr (Some example_issue)))
             bigint_report (constructor example_config))
     = Inl (TypeError ''Do not know how to serialize a BigInt'') \<and>
   calls (report example_platform (example_env 0 None (Inr (Some example_issue)))
            bigint_report (constructor example_config)) = [] \<and>
   result (report example_platform (example_env 1000 None (Inr (Some example_issue)))
             bigint_report
             (manager (report example_platform
                         (example_env 0 None (Inr (Some example_issue)))
                         bigint_report (constructor example_config))))
     = Inl (TypeError ''Do not know how to serialize a BigInt'')"
proof -
  let ?E1 = "example_env 0 None (Inr (Some example_issue))"
  let ?E2 = "example_env 1000 None (Inr (Some example_issue))"
  let ?m = "constructor example_config"
  let ?e = "TypeError ''Do not know how to serialize a BigInt''"
  have d: "deduplicate (config ?m)"
    by (simp add: constructor_def example_config_def)
  have c: "createIssue_reply ?E1 = Inr (Some example_issue)"
    by (simp add: example_env_def)
  have e: "evicted example_platform bigint_report ?m = ?m"
    by (simp add: evicted_def constructor_def)
  have first: "report example_platform ?E1 bigint_report ?m =
                 \<lparr> result = Inl ?e, manager = ?m, calls = [], logs = [] \<rparr>"
    using report_unformatted [of example_platform ?E1 bigint_report ?m ?e,
                              OF bigint_fresh bigint_unformatted]
    by (simp add: e)
  have second: "report example_platform ?E2 bigint_report ?m =
                 \<lparr> result = Inl ?e, manager = ?m, calls = [], logs = [] \<rparr>"
    using report_unformatted [of example_platform ?E2 bigint_report ?m ?e,
                              OF bigint_fresh bigint_unformatted]
    by (simp add: e)
  from d bigint_fresh [of ?E1] c first second show ?thesis by simp
qed

section \<open>The creating branch\<close>

text \<open>
  C9. The deduplication flag guards the lookup only. A report whose issue is created (its
  ticket body is formatted and the gateway answers with an issue) stores, under its fingerprint, a record with the new ticket id, count 1 and the clock
  reading as last-seen time, replacing whatever was stored there and leaving every other
  key alone: with deduplication off (where the result is never a duplicate), and on every
  path that reaches the creation, so the keys of the cache grow by the fingerprint
  whatever the flag is.
\<close>

theorem insert_ignores_flag:
  assumes "createIssue_reply E = Inr (Some i)" and "serialisable P r"
  shows "(\<not> deduplicate (config m) \<longrightarrow>
            result (report P E r m) =
              Inr \<lparr> issueId = issue_id i, res_identifier = issue_identifier i,
                    res_url = issue_url i, isDuplicate = False \<rparr> \<and>
            faultCache (manager (report P E r m)) =
              (faultCache m)(generateFaultHash P r \<mapsto>
                 \<lparr> hash = generateFaultHash P r, rec_issueId = issue_id i, count = 1,
                   lastSeen = now_insert E \<rparr>)) \<and>
         (fresh_path P E r m \<longrightarrow>
            faultCache (manager (report P E r m)) =
              (faultCache m)(generateFaultHash P r \<mapsto>
                 \<lparr> hash = generateFaultHash P r, rec_issueId = issue_id i, count = 1,
                   lastSeen = now_insert E \<rparr>) \<and>
            dom (faultCache (manager (report P E r m))) =
              insert (generateFaultHash P r) (dom (faultCache m)))"
proof (intro conjI impI)
  assume d: "\<not> deduplicate (config m)"
  then have f: "fresh_path P E r m" by (rule fresh_path_disabled)
  show "result (report P E r m) =
              Inr \<lparr> issueId = issue_id i, res_identifier = issue_identifier i,
                    res_url = issue_url i, isDuplicate = False \<rparr>"
    by (simp add: report_fresh_result [OF f assms(2)] assms(1))
  show "faultCache (manager (report P E r m)) =
              (faultCache m)(generateFaultHash P r \<mapsto>
                 \<lparr> hash = generateFaultHash P r, rec_issueId = issue_id i, count = 1,
                   lastSeen = now_insert E \<rparr>)"
    by (rule report_fresh_success_cache [OF f assms(2,1)])
next
  assume f: "fresh_path P E r m"
  show "faultCache (manager (report P E r m)) =
              (faultCache m)(generateFaultHash P r \<mapsto>
                 \<lparr> hash = generateFaultHash P r, rec_issueId = issue_id i, count = 1,
                   lastSeen = now_insert E \<rparr>)"
    by (rule report_fresh_success_cache [OF f assms(2,1)])
  then show "dom (faultCache (manager (report P E r m))) =
              insert (generateFaultHash P r) (dom (faultCache m))"
    by simp
qed

theorem insert_ignores_flag_witness:
  "createIssue_reply (example_env 5 None (Inr (Some example_issue))) = Inr (Some example_issue) \<and>
   serialisable example_platform example_report \<and>
   \<not> deduplicate (config undeduplicated_manager) \<and>
   fresh_path example_platform (example_env 5 None (Inr (Some example_issue))) example_report
     undeduplicated_manager \<and>
   faultCache undeduplicated_manager ''Duplicate error:Error: Duplicate'' =
     Some \<lparr> hash = ''Duplicate error:Error: Duplicate'', rec_issueId = ''issue-123'',
            count = 7, lastSeen = 0 \<rparr> \<and>
   faultCache (manager (report example_platform (example_env 5 None (Inr (Some example_issue)))
                          example_report undeduplicated_manager))
       ''Duplicate error:Error: Duplicate'' =
     Some \<lparr> hash = ''Duplicate error:Error: Duplicate'', rec_issueId = ''issue-123'',
            count = 1, lastSeen = 5 \<rparr>"
proof -
  let ?E = "example_env 5 None (Inr (Some example_issue))"
  have c: "createIssue_reply ?E = Inr (Some example_issue)" by (simp add: example_env_def)
  have f: "fresh_path example_platform ?E example_report undeduplicated_manager"
    by (rule fresh_path_disabled [OF undeduplicated_config])
  have b: "faultCache undeduplicated_manager ''Duplicate error:Error: Duplicate'' =
     Some \<lparr> hash = ''Duplicate error:Error: Duplicate'', rec_issueId = ''issue-123'',
            count = 7, lastSeen = 0 \<rparr>"
    by (simp add: undeduplicated_manager_def cached_record_def)
  from insert_ignores_flag [OF c example_serialisable, of undeduplicated_manager]
       c f b undeduplicated_config example_serialisable
  show ?thesis by (simp add: example_hash example_issue_def example_env_def)
qed

text \<open>
  C5, as amended. On the creating branch, when the creation is rejected or its payload
  holds no issue, \<open>report\<close> rejects with one error (the gateway's, or
  \<open>Issue creation returned no issue\<close>; the creation is attempted once the ticket body has
  been formatted) and inserts no record: every other key of the cache
  is as before, and the fingerprint's key is as the lookup left it, which is empty with
  deduplication on (the lookup has deleted an expired record) and unchanged with
  deduplication off. When the fingerprint had no record, the manager is unchanged.
\<close>

theorem fresh_failure_propagates:
  assumes "fresh_path P E r m"
    and "createIssue_reply E = Inl e \<or> createIssue_reply E = Inr None"
  shows "(serialisable P r \<longrightarrow>
            result (report P E r m) =
              Inl (case createIssue_reply E of
                     Inl e' \<Rightarrow> e'
                   | Inr _ \<Rightarrow> Error ''Issue creation returned no issue'')) \<and>
         (\<forall>k. k \<noteq> generateFaultHash P r \<longrightarrow>
              faultCache (manager (report P E r m)) k = faultCache m k) \<and>
         faultCache (manager (report P E r m)) (generateFaultHash P r) =
           (if deduplicate (config m) then None else faultCache m (generateFaultHash P r)) \<and>
         (faultCache m (generateFaultHash P r) = None \<longrightarrow> manager (report P E r m) = m)"
  using assms
  by (auto simp: report_fresh_result report_fresh_failure_manager evicted_def fun_upd_idem)

theorem fresh_failure_propagates_witness:
  "fresh_path example_platform (example_env 0 None (Inr None)) example_report
     (constructor example_config) \<and>
   createIssue_reply (example_env 0 None (Inr None)) = Inr None \<and>
   serialisable example_platform example_report \<and>
   faultCache (constructor example_config) (generateFaultHash example_platform example_report) = None \<and>
   ''other'' \<noteq> generateFaultHash example_platform example_report \<and>
   result (report example_platform (example_env 0 None (Inr None)) example_report
             (constructor example_config)) =
     Inl (Error ''Issue creation returned no issue'') \<and>
   manager (report example_platform (example_env 0 None (Inr None)) example_report
              (constructor example_config)) = constructor example_config"
proof -
  let ?E = "example_env 0 None (Inr None)"
  have c: "createIssue_reply ?E = Inl (Error []) \<or> createIssue_reply ?E = Inr None"
    by (simp add: example_env_def)
  have n: "faultCache (constructor example_config)
             (generateFaultHash example_platform example_report) = None"
    by (simp add: constructor_def)
  from fresh_failure_propagates [OF example_fresh c] example_fresh [of ?E] c n
       example_serialisable
  show ?thesis by (simp add: example_hash example_env_def)
qed

text \<open>
  C5 as stated says that the cache is left unchanged. It is not when the lookup has just
  deleted an expired record of the fingerprint: the creation fails, the error is
  propagated, and the record that was in the cache before the call is gone.
\<close>

theorem fresh_failure_cache_counterexample:
  "fresh_path example_platform (example_env 60001 None (Inl (Error ''network'')))
     example_report cached_manager \<and>
   createIssue_reply (example_env 60001 None (Inl (Error ''network''))) = Inl (Error ''network'') \<and>
   result (report example_platform (example_env 60001 None (Inl (Error ''network'')))
             example_report cached_manager) = Inl (Error ''network'') \<and>
   faultCache cached_manager ''Duplicate error:Error: Duplicate'' = Some cached_record \<and>
   faultCache (manager (report example_platform (example_env 60001 None (Inl (Error ''network'')))
                          example_report cached_manager))
       ''Duplicate error:Error: Duplicate'' = None \<and>
   faultCache (manager (report example_platform (example_env 60001 None (Inl (Error ''network'')))
                          example_report cached_manager))
     \<noteq> faultCache cached_manager"
proof -
  let ?E = "example_env 60001 None (Inl (Error ''network''))"
  have f: "fresh_path example_platform ?E example_report cached_manager"
    by (rule cached_expired) simp
  have c: "createIssue_reply ?E = Inl (Error ''network'')" by (simp add: example_env_def)
  have r: "result (report example_platform ?E example_report cached_manager) = Inl (Error ''network'')"
    by (simp add: report_fresh_result [OF f example_serialisable] c)
  have b: "faultCache cached_manager ''Duplicate error:Error: Duplicate'' = Some cached_record"
    by (simp add: cached_manager_def)
  have a: "faultCache (manager (report example_platform ?E example_report cached_manager))
       ''Duplicate error:Error: Duplicate'' = None"
    by (simp add: report_fresh_manager [OF f example_serialisable] c evicted_def cached_config
                  example_hash)
  from a b have "faultCache (manager (report example_platform ?E example_report cached_manager))
     \<noteq> faultCache cached_manager"
    by (metis option.distinct(1))
  with f c r b a show ?thesis by blast
qed

section \<open>Expiry\<close>

text \<open>
  C3, as amended. A record that \<open>checkDuplicate\<close> returns is no older than the window at
  the clock reading of the lookup. A stored record that is older is deleted by the lookup,
  which then reports nothing found; a report with that fingerprint whose ticket body can
  be formatted and whose issue is created therefore resolves with \<open>isDuplicate = false\<close>
  and the new ticket, sends one creation request, and stores a new record with count 1.
  Eviction, the removal of a record on account of its age, happens in the lookup only:
  whenever a key that was in the cache is missing after a \<open>report\<close>, it is the fingerprint
  of the report, deduplication is on and the record had expired at the lookup.
  (\<open>clearCache\<close> empties the cache at the caller's request, whatever the age of the
  records.)
\<close>

theorem lazy_eviction:
  "(checkDuplicate now h m = (Some found, m') \<longrightarrow>
      now - lastSeen found \<le> dedupeWindow (config m)) \<and>
   (faultCache m h = Some stored \<and> now - lastSeen stored > dedupeWindow (config m) \<longrightarrow>
      checkDuplicate now h m = (None, m\<lparr>faultCache := (faultCache m)(h := None)\<rparr>)) \<and>
   (faultCache m (generateFaultHash P r) = Some old \<and>
    now_check E - lastSeen old > dedupeWindow (config m) \<and>
    serialisable P r \<and>
    createIssue_reply E = Inr (Some i) \<longrightarrow>
      result (report P E r m) =
        Inr \<lparr> issueId = issue_id i, res_identifier = issue_identifier i,
              res_url = issue_url i, isDuplicate = False \<rparr> \<and>
      (\<exists>input. calls (report P E r m) = [CreateIssue input]) \<and>
      faultCache (manager (report P E r m)) (generateFaultHash P r) =
        Some \<lparr> hash = generateFaultHash P r, rec_issueId = issue_id i, count = 1,
               lastSeen = now_insert E \<rparr>) \<and>
   (faultCache m k = Some x \<and> faultCache (manager (report P E r m)) k = None \<longrightarrow>
      k = generateFaultHash P r \<and> deduplicate (config m) \<and>
      now_check E - lastSeen x > dedupeWindow (config m))"
proof (intro conjI impI)
  assume "checkDuplicate now h m = (Some found, m')"
  then show "now - lastSeen found \<le> dedupeWindow (config m)"
    by (simp add: checkDuplicate_Some)
next
  assume "faultCache m h = Some stored \<and> now - lastSeen stored > dedupeWindow (config m)"
  then show "checkDuplicate now h m = (None, m\<lparr>faultCache := (faultCache m)(h := None)\<rparr>)"
    by (simp add: checkDuplicate_None)
next
  assume a: "faultCache m (generateFaultHash P r) = Some old \<and>
    now_check E - lastSeen old > dedupeWindow (config m) \<and>
    serialisable P r \<and>
    createIssue_reply E = Inr (Some i)"
  then have f: "fresh_path P E r m" by (simp add: expired_fresh)
  from a have s: "serialisable P r" by simp
  from a show "result (report P E r m) =
        Inr \<lparr> issueId = issue_id i, res_identifier = issue_identifier i,
              res_url = issue_url i, isDuplicate = False \<rparr>"
    by (simp add: report_fresh_result [OF f s])
  from report_fresh_calls [OF f s]
  show "\<exists>input. calls (report P E r m) = [CreateIssue input]"
    by blast
  from a show "faultCache (manager (report P E r m)) (generateFaultHash P r) =
        Some \<lparr> hash = generateFaultHash P r, rec_issueId = issue_id i, count = 1,
               lastSeen = now_insert E \<rparr>"
    by (simp add: report_fresh_success_cache [OF f s])
next
  assume a: "faultCache m k = Some x \<and> faultCache (manager (report P E r m)) k = None"
  with report_removes_only_expired [of m k x P E r]
  show "k = generateFaultHash P r" "deduplicate (config m)"
       "now_check E - lastSeen x > dedupeWindow (config m)"
    by simp_all
qed

theorem lazy_eviction_witness:
  "checkDuplicate 1000 ''Duplicate error:Error: Duplicate'' cached_manager
     = (Some cached_record, cached_manager) \<and>
   1000 - lastSeen cached_record \<le> dedupeWindow (config cached_manager) \<and>
   faultCache cached_manager ''Duplicate error:Error: Duplicate'' = Some cached_record \<and>
   60001 - lastSeen cached_record > dedupeWindow (config cached_manager) \<and>
   checkDuplicate 60001 ''Duplicate error:Error: Duplicate'' cached_manager
     = (None, cached_manager\<lparr>faultCache :=
                (faultCache cached_manager)(''Duplicate error:Error: Duplicate'' := None)\<rparr>) \<and>
   serialisable example_platform example_report \<and>
   result (report example_platform
             (example_env 60001 None
                (Inr (Some \<lparr> issue_id = ''issue-124'', issue_identifier = ''TEST-2'',
                             issue_url = ''https://linear.app/test/issue/TEST-2'' \<rparr>)))
             example_report cached_manager) =
     Inr \<lparr> issueId = ''issue-124'', res_identifier = ''TEST-2'',
           res_url = ''https://linear.app/test/issue/TEST-2'', isDuplicate = False \<rparr> \<and>
   faultCache (manager (report example_platform
                          (example_env 60001 None (Inl (Error ''network'')))
                          example_report cached_manager))
       ''Duplicate error:Error: Duplicate'' = None \<and>
   deduplicate (config cached_manager) \<and>
   now_check (example_env 60001 None (Inl (Error ''network''))) - lastSeen cached_record
     > dedupeWindow (config cached_manager)"
proof -
  let ?h = "''Duplicate error:Error: Duplicate''"
  let ?i = "\<lparr> issue_id = ''issue-124'', issue_identifier = ''TEST-2'',
              issue_url = ''https://linear.app/test/issue/TEST-2'' \<rparr>"
  let ?E = "example_env 60001 None (Inr (Some ?i))"
  let ?F = "example_env 60001 None (Inl (Error ''network''))"
  have b: "faultCache cached_manager ?h = Some cached_record"
    by (simp add: cached_manager_def)
  have live: "checkDuplicate 1000 ?h cached_manager = (Some cached_record, cached_manager)"
    by (simp add: checkDuplicate_Some b cached_config) (simp add: cached_record_def)
  have late: "60001 - lastSeen cached_record > dedupeWindow (config cached_manager)"
    by (simp add: cached_config cached_record_def)
  have c: "faultCache cached_manager (generateFaultHash example_platform example_report)
             = Some cached_record \<and>
           now_check ?E - lastSeen cached_record > dedupeWindow (config cached_manager) \<and>
           serialisable example_platform example_report \<and>
           createIssue_reply ?E = Inr (Some ?i)"
    using late by (simp add: cached_lookup example_serialisable) (simp add: example_env_def)
  have f: "fresh_path example_platform ?F example_report cached_manager"
    by (rule cached_expired) simp
  have fail: "createIssue_reply ?F = Inl (Error ''network'') \<or> createIssue_reply ?F = Inr None"
    by (simp add: example_env_def)
  have gone: "faultCache (manager (report example_platform ?F example_report cached_manager)) ?h
                = None"
    unfolding report_fresh_failure_manager [OF f fail]
    by (simp add: evicted_def cached_config example_hash)
  note t1 = lazy_eviction [of 1000 ?h cached_manager cached_record cached_manager
                              cached_record example_platform example_report cached_record
                              ?E ?i ?h cached_record]
  note t2 = lazy_eviction [of 60001 ?h cached_manager cached_record cached_manager
                              cached_record example_platform example_report cached_record
                              ?F ?i ?h cached_record]
  from t1 live have "1000 - lastSeen cached_record \<le> dedupeWindow (config cached_manager)"
    by blast
  moreover from t2 b late have "checkDuplicate 60001 ?h cached_manager
     = (None, cached_manager\<lparr>faultCache := (faultCache cached_manager)(?h := None)\<rparr>)"
    by blast
  moreover from t1 c have "result (report example_platform ?E example_report cached_manager) =
     Inr \<lparr> issueId = ''issue-124'', res_identifier = ''TEST-2'',
           res_url = ''https://linear.app/test/issue/TEST-2'', isDuplicate = False \<rparr>"
    by simp
  moreover from t2 b gone have "deduplicate (config cached_manager) \<and>
      now_check ?F - lastSeen cached_record > dedupeWindow (config cached_manager)"
    by blast
  ultimately show ?thesis using live b late gone example_serialisable by blast
qed

text \<open>
  C3 as stated promises a fresh result for every resubmission after the window. A
  resubmission with a BigInt in its context, whose creation would be answered with an
  issue, has its expired record deleted by the lookup and is then rejected with the
  \<open>TypeError\<close> of \<open>formatDescription\<close>: no result with \<open>isDuplicate = false\<close>, no gateway
  call, and no new record.
\<close>

theorem expired_unformatted_counterexample:
  "faultCache cached_manager (generateFaultHash example_platform bigint_report)
     = Some cached_record \<and>
   now_check (example_env 60001 None (Inr (Some example_issue))) - lastSeen cached_record
     > dedupeWindow (config cached_manager) \<and>
   createIssue_reply (example_env 60001 None (Inr (Some example_issue)))
     = Inr (Some example_issue) \<and>
   result (report example_platform (example_env 60001 None (Inr (Some example_issue)))
             bigint_report cached_manager)
     = Inl (TypeError ''Do not know how to serialize a BigInt'') \<and>
   calls (report example_platform (example_env 60001 None (Inr (Some example_issue)))
            bigint_report cached_manager) = [] \<and>
   faultCache (manager (report example_platform
                          (example_env 60001 None (Inr (Some example_issue)))
                          bigint_report cached_manager))
       (generateFaultHash example_platform bigint_report) = None"
proof -
  let ?E = "example_env 60001 None (Inr (Some example_issue))"
  let ?e = "TypeError ''Do not know how to serialize a BigInt''"
  have b: "faultCache cached_manager (generateFaultHash example_platform bigint_report)
             = Some cached_record"
    by (simp add: bigint_hash cached_manager_def)
  have late: "now_check ?E - lastSeen cached_record > dedupeWindow (config cached_manager)"
    by (simp add: cached_config cached_record_def example_env_def)
  have c: "createIssue_reply ?E = Inr (Some example_issue)"
    by (simp add: example_env_def)
  have f: "fresh_path example_platform ?E bigint_report cached_manager"
    by (rule bigint_expired) simp
  have r: "report example_platform ?E bigint_report cached_manager =
             \<lparr> result = Inl ?e,
               manager = evicted example_platform bigint_report cached_manager,
               calls = [], logs = [] \<rparr>"
    by (rule report_unformatted [OF f bigint_unformatted])
  have gone: "faultCache (evicted example_platform bigint_report cached_manager)
                (generateFaultHash example_platform bigint_report) = None"
    by (simp add: evicted_def cached_config)
  from b late c gone show ?thesis by (simp add: r)
qed

section \<open>Deduplication switched off\<close>

text \<open>
  C7. With deduplication off, any number of submissions with one and the same fingerprint,
  each awaited before the next and each with a successful creation (its ticket body is
  formatted and the gateway answers with an issue), give as many results,
  every one with \<open>isDuplicate = false\<close>: each outcome is the new ticket of its own
  creation request, no comment is sent, and the results are the same whatever the cache
  holds at the start, since it is never looked up.
\<close>

theorem disabled_dedup_all_fresh:
  assumes "\<not> deduplicate (config m)"
    and "\<forall>(E, r) \<in> set subs. generateFaultHash P r = h \<and> serialisable P r \<and>
                              (\<exists>i. createIssue_reply E = Inr (Some i))"
  shows "length (submit_all P subs m) = length subs \<and>
         (\<forall>out \<in> set (submit_all P subs m). \<exists>res. result out = Inr res \<and> \<not> isDuplicate res) \<and>
         list_all2 created_fresh subs (submit_all P subs m) \<and>
         (\<forall>cache. map result (submit_all P subs (m\<lparr>faultCache := cache\<rparr>))
                    = map result (submit_all P subs m))"
proof -
  from assms(2) have ok: "\<forall>(E, r) \<in> set subs. serialisable P r \<and>
                                             (\<exists>i. createIssue_reply E = Inr (Some i))"
    by auto
  from submit_all_disabled [OF assms(1) ok]
  have l: "list_all2 created_fresh subs (submit_all P subs m)" .
  have indep: "map result (submit_all P subs (m\<lparr>faultCache := cache\<rparr>))
                 = map result (submit_all P subs m)" for cache
  proof -
    have "\<not> deduplicate (config (m\<lparr>faultCache := cache\<rparr>))" using assms(1) by simp
    from submit_all_disabled [OF this ok] l show ?thesis
      by (rule created_fresh_results)
  qed
  from l have len: "length (submit_all P subs m) = length subs"
    by (simp add: list_all2_lengthD)
  have "\<exists>res. result out = Inr res \<and> \<not> isDuplicate res" if "out \<in> set (submit_all P subs m)" for out
  proof -
    from that l obtain sub where "created_fresh sub out"
      by (metis in_set_conv_nth list_all2_conv_all_nth)
    then show ?thesis
      by (auto simp: created_fresh_def split: sum.splits option.splits)
  qed
  then have fresh: "\<forall>out \<in> set (submit_all P subs m). \<exists>res. result out = Inr res \<and> \<not> isDuplicate res"
    by blast
  from indep have "\<forall>cache. map result (submit_all P subs (m\<lparr>faultCache := cache\<rparr>))
                    = map result (submit_all P subs m)"
    by blast
  with len fresh l show ?thesis by (intro conjI)
qed

theorem disabled_dedup_all_fresh_witness:
  "\<not> deduplicate (config undeduplicated_manager) \<and>
   serialisable example_platform example_report \<and>
   serialisable example_platform (example_report\<lparr>severity := Some ''critical''\<rparr>) \<and>
   generateFaultHash example_platform example_report = ''Duplicate error:Error: Duplicate'' \<and>
   generateFaultHash example_platform (example_report\<lparr>severity := Some ''critical''\<rparr>)
     = ''Duplicate error:Error: Duplicate'' \<and>
   createIssue_reply (example_env 1 None (Inr (Some example_issue))) = Inr (Some example_issue) \<and>
   map result (submit_all example_platform
      [(example_env 1 None (Inr (Some example_issue)), example_report),
       (example_env 2 None (Inr (Some example_issue)), example_report\<lparr>severity := Some ''critical''\<rparr>),
       (example_env 3 None (Inr (Some example_issue)), example_report)]
      undeduplicated_manager) =
   [Inr \<lparr> issueId = ''issue-123'', res_identifier = ''TEST-1'',
          res_url = ''https://linear.app/test/issue/TEST-1'', isDuplicate = False \<rparr>,
    Inr \<lparr> issueId = ''issue-123'', res_identifier = ''TEST-1'',
          res_url = ''https://linear.app/test/issue/TEST-1'', isDuplicate = False \<rparr>,
    Inr \<lparr> issueId = ''issue-123'', res_identifier = ''TEST-1'',
          res_url = ''https://linear.app/test/issue/TEST-1'', isDuplicate = False \<rparr>]"
proof -
  let ?subs = "[(example_env 1 None (Inr (Some example_issue)), example_report),
       (example_env 2 None (Inr (Some example_issue)), example_report\<lparr>severity := Some ''critical''\<rparr>),
       (example_env 3 None (Inr (Some example_issue)), example_report)]"
  let ?h = "''Duplicate error:Error: Duplicate''"
  have h2: "generateFaultHash example_platform (example_report\<lparr>severity := Some ''critical''\<rparr>) = ?h"
    using example_hash by (simp add: generateFaultHash_def)
  have c: "createIssue_reply (example_env t None (Inr (Some example_issue))) = Inr (Some example_issue)" for t
    by (simp add: example_env_def)
  have s2: "serialisable example_platform (example_report\<lparr>severity := Some ''critical''\<rparr>)"
    using example_serialisable by (simp add: serialisable_def)
  have a: "\<forall>(E, r) \<in> set ?subs. generateFaultHash example_platform r = ?h \<and>
             serialisable example_platform r \<and>
             (\<exists>i. createIssue_reply E = Inr (Some i))"
    by (simp add: example_hash h2 c example_serialisable s2)
  from disabled_dedup_all_fresh [OF undeduplicated_config a]
  have "list_all2 created_fresh ?subs (submit_all example_platform ?subs undeduplicated_manager)"
    by blast
  then have "map result (submit_all example_platform ?subs undeduplicated_manager) =
   [Inr \<lparr> issueId = ''issue-123'', res_identifier = ''TEST-1'',
          res_url = ''https://linear.app/test/issue/TEST-1'', isDuplicate = False \<rparr>,
    Inr \<lparr> issueId = ''issue-123'', res_identifier = ''TEST-1'',
          res_url = ''https://linear.app/test/issue/TEST-1'', isDuplicate = False \<rparr>,
    Inr \<lparr> issueId = ''issue-123'', res_identifier = ''TEST-1'',
          res_url = ''https://linear.app/test/issue/TEST-1'', isDuplicate = False \<rparr>]"
    by (simp add: Let_def created_fresh_def c) (simp add: example_issue_def)
  with undeduplicated_config example_hash h2 c [of 1] example_serialisable s2
  show ?thesis by blast
qed

section \<open>Signatures of the wrong length\<close>

text \<open>
  C10. With a non-empty signing secret configured, \<open>verifySignature\<close> throws the
  \<open>RangeError\<close> of \<open>timingSafeEqual\<close>, and does not return \<open>false\<close>, whenever the byte
  length of the signature differs from that of the hex digest (64 characters for
  HMAC-SHA256). For a signature that \<open>process\<close> takes as provided (a non-empty one),
  \<open>process\<close> rejects with that error, which is not the \<open>Invalid webhook signature\<close>
  error, and the middleware answers 500 rather than 401.
\<close>

theorem signature_length_mismatch_throws:
  assumes "signingSecret w = Some secret" and "secret \<noteq> []"
    and "length signature \<noteq> length (hmac secret (stringify payload))"
  shows "verifySignature hmac w (stringify payload) signature =
           Inl (RangeError ''Input buffers must have the same byte length'') \<and>
         (signature \<noteq> [] \<longrightarrow>
            process hmac stringify w payload (Some signature) =
              Inl (RangeError ''Input buffers must have the same byte length'') \<and>
            process hmac stringify w payload (Some signature) \<noteq>
              Inl (Error ''Invalid webhook signature'') \<and>
            createWebhookMiddleware hmac stringify w payload (Some signature) =
              \<lparr> status = 500, json = ErrorBody ''Internal server error'' \<rparr>)"
  using assms
  by (simp add: createWebhookMiddleware_def process_signed verifySignature_configured timingSafeEqual_def)

theorem signature_length_mismatch_throws_witness:
  "signingSecret example_handler = Some ''test-secret'' \<and> ''test-secret'' \<noteq> [] \<and>
   length (example_hmac ''test-secret'' (example_stringify example_payload)) = 64 \<and>
   length ''invalid-signature'' \<noteq>
     length (example_hmac ''test-secret'' (example_stringify example_payload)) \<and>
   ''invalid-signature'' \<noteq> [] \<and>
   verifySignature example_hmac example_handler (example_stringify example_payload)
       ''invalid-signature'' =
     Inl (RangeError ''Input buffers must have the same byte length'') \<and>
   process example_hmac example_stringify example_handler example_payload
       (Some ''invalid-signature'') =
     Inl (RangeError ''Input buffers must have the same byte length'') \<and>
   status (createWebhookMiddleware example_hmac example_stringify example_handler
             example_payload (Some ''invalid-signature'')) = 500"
proof -
  have s: "signingSecret example_handler = Some ''test-secret''"
    by (simp add: example_handler_def)
  have n: "''test-secret'' \<noteq> []" by simp
  have d: "length (example_hmac ''test-secret'' (example_stringify example_payload)) = 64"
    by (simp add: example_hmac_def)
  have l: "length ''invalid-signature'' \<noteq>
             length (example_hmac ''test-secret'' (example_stringify example_payload))"
    by (simp add: example_hmac_def)
  from signature_length_mismatch_throws
         [of example_handler "''test-secret''" "''invalid-signature''" example_hmac
             example_stringify example_payload, OF s n l] s d l
  show ?thesis by simp
qed

end
